theory Spec2Isabelle
  imports Complex_Main "HOL-Library.Char_ord" "HOL-Library.List_Lexorder"
begin

section \<open>Python values shared by both modules\<close>

text \<open>
  Python floats are modelled as real numbers: every arithmetic operation of the source is
  the exact operation on \<^typ>\<open>real\<close>. Exceptions are values of \<open>error\<close>; a function that
  can raise returns \<open>error + 'a\<close> with \<open>Inl\<close> for the exception.
\<close>

datatype value_error =
    BothEmbeddingsMustBeProvided    \<comment> \<open>\<open>ValueError("Both embeddings must be provided")\<close>\<close>
  | ScreeningScoreOutOfRange        \<comment> \<open>\<open>ValueError("Screening score must be between 0 and 10")\<close>\<close>
  | NoFeatures                      \<comment> \<open>raised by the library's input check: array with 0 features\<close>
  | IncompatibleDimension           \<comment> \<open>raised by the library's input check: X.shape[1] != Y.shape[1]\<close>
  | FeedbackMustBeGoodFitOrNotAFit  \<comment> \<open>\<open>ValueError("Feedback must be 'Good Fit' or 'Not a Fit'")\<close>\<close>

datatype error =
    ValueError value_error
  | StorageError                    \<comment> \<open>any exception of \<open>sqlite3\<close>\<close>
  | DatabaseError                   \<comment> \<open>\<open>utils.DatabaseError\<close>, raised by \<open>record_feedback\<close>\<close>

text \<open>
  \<open>round(x, n)\<close> of Python rounds to the nearest multiple of \<open>10 ** -n\<close> and resolves an
  exact tie towards the even digit.
\<close>

definition round_half_even :: "real \<Rightarrow> int" where
  "round_half_even x =
     (let f = \<lfloor>x\<rfloor>; d = x - of_int f
      in if d < 1 / 2 then f
         else if d > 1 / 2 then f + 1
         else if even f then f else f + 1)"

definition py_round :: "real \<Rightarrow> nat \<Rightarrow> real" where
  "py_round x n = of_int (round_half_even (x * 10 ^ n)) / 10 ^ n"

text \<open>\<open>str(n)\<close> for a non-negative integer.\<close>

definition digit_char :: "nat \<Rightarrow> char" where
  "digit_char d = ''0123456789'' ! d"

fun str_nat :: "nat \<Rightarrow> string" where
  "str_nat n = (if n < 10 then [digit_char n] else str_nat (n div 10) @ [digit_char (n mod 10)])"

declare str_nat.simps [simp del]

section \<open>matching.py\<close>

subsection \<open>Cosine similarity\<close>

text \<open>
  \<open>sklearn.metrics.pairwise.cosine_similarity\<close> on two arrays of shape \<open>(1, n)\<close> and
  \<open>(1, m)\<close>, as the library documents it: the input check rejects an array with no feature
  and two arrays with different numbers of features; then each row is divided by its
  Euclidean norm (a zero norm is replaced by 1) and the dot product of the two rows is
  returned.
\<close>

definition dot :: "real list \<Rightarrow> real list \<Rightarrow> real" where
  "dot xs ys = sum_list (map (\<lambda>(x, y). x * y) (zip xs ys))"

definition row_norm :: "real list \<Rightarrow> real" where
  "row_norm xs = sqrt (dot xs xs)"

definition handle_zeros_in_scale :: "real \<Rightarrow> real" where
  "handle_zeros_in_scale n = (if n = 0 then 1 else n)"

definition normalize_row :: "real list \<Rightarrow> real list" where
  "normalize_row xs = map (\<lambda>x. x / handle_zeros_in_scale (row_norm xs)) xs"

definition cosine_similarity :: "real list \<Rightarrow> real list \<Rightarrow> error + real" where
  "cosine_similarity xs ys =
     (if length xs = 0 \<or> length ys = 0 then Inl (ValueError NoFeatures)
      else if length xs \<noteq> length ys then Inl (ValueError IncompatibleDimension)
      else Inr (dot (normalize_row xs) (normalize_row ys)))"

definition compute_cosine_similarity :: "real list \<Rightarrow> real list \<Rightarrow> error + real" where
  "compute_cosine_similarity embedding1 embedding2 =
     (case cosine_similarity embedding1 embedding2 of
        Inl e \<Rightarrow> Inl e
      | Inr similarity \<Rightarrow>
          (let normalized_similarity = (similarity + 1) / 2
           in Inr normalized_similarity))"

subsection \<open>Explanation and recommendation\<close>

text \<open>
  The format specifications \<open>:.0%\<close> and \<open>:.1f\<close> applied to a non-negative number.
\<close>

definition format_percent0 :: "real \<Rightarrow> string" where
  "format_percent0 x = str_nat (nat (round_half_even (x * 100))) @ ''%''"

definition format_fixed1 :: "real \<Rightarrow> string" where
  "format_fixed1 x =
     (let n = nat (round_half_even (x * 10))
      in str_nat (n div 10) @ ''.'' @ str_nat (n mod 10))"

fun join :: "string \<Rightarrow> string list \<Rightarrow> string" where
  "join sep [] = []"
| "join sep [p] = p"
| "join sep (p # q # ps) = p @ sep @ join sep (q # ps)"

text \<open>
  The two profile arguments of the source only set two local names that the text never
  uses, so they are left out.
\<close>

definition generate_explanation :: "real \<Rightarrow> real \<Rightarrow> real \<Rightarrow> string" where
  "generate_explanation similarity screening_score final_score =
     (let part1 =
            (if similarity \<ge> 0.9 then ''Strong technical compatibility ('' @ format_percent0 similarity @ '')''
             else if similarity \<ge> 0.7 then ''Good technical fit ('' @ format_percent0 similarity @ '')''
             else if similarity \<ge> 0.5 then ''Moderate technical overlap ('' @ format_percent0 similarity @ '')''
             else ''Limited technical match ('' @ format_percent0 similarity @ '')'');
          part2 =
            (if screening_score \<ge> 8 then ''Excellent screening performance ('' @ format_fixed1 screening_score @ ''/10)''
             else if screening_score \<ge> 6 then ''Good screening results ('' @ format_fixed1 screening_score @ ''/10)''
             else if screening_score \<ge> 4 then ''Acceptable responses ('' @ format_fixed1 screening_score @ ''/10)''
             else ''Poor screening performance ('' @ format_fixed1 screening_score @ ''/10)'')
      in join ''. '' [part1, part2] @ ''.'')"

definition get_recommendation :: "real \<Rightarrow> string" where
  "get_recommendation final_score =
     (if final_score \<ge> 8 then ''STRONG MATCH - Recommend immediate interview/next round''
      else if final_score \<ge> 7 then ''GOOD MATCH - Recommend for consideration''
      else if final_score \<ge> 6 then ''MODERATE MATCH - Consider if other candidates limited''
      else if final_score \<ge> 5 then ''WEAK MATCH - Not recommended at this time''
      else ''POOR MATCH - Do not recommend'')"

subsection \<open>The matcher\<close>

record matcher =
  similarity_weight :: real
  screening_weight :: real

definition matcher_init :: matcher where
  "matcher_init = \<lparr>similarity_weight = 0.6, screening_weight = 0.4\<rparr>"

record match_result =
  similarity_score :: real
  screening_score :: real
  final_score :: real
  recommendation :: string
  explanation :: string
  candidate_id :: string
  hiring_profile_id :: string

definition compute_match ::
  "matcher \<Rightarrow> real list \<Rightarrow> real list \<Rightarrow> real \<Rightarrow> string \<Rightarrow> string \<Rightarrow> error + match_result" where
  "compute_match self hiring_embedding candidate_embedding screening_score_in cid hid =
     (if hiring_embedding = [] \<or> candidate_embedding = []
      then Inl (ValueError BothEmbeddingsMustBeProvided)
      else if screening_score_in < 0 \<or> screening_score_in > 10
      then Inl (ValueError ScreeningScoreOutOfRange)
      else case compute_cosine_similarity hiring_embedding candidate_embedding of
        Inl e \<Rightarrow> Inl e
      | Inr similarity \<Rightarrow>
          (let normalized_screening = screening_score_in / 10;
               final = similarity_weight self * similarity
                       + screening_weight self * normalized_screening;
               final_score_scaled = final * 10
           in Inr \<lparr>similarity_score = py_round similarity 3,
                    screening_score = py_round screening_score_in 2,
                    final_score = py_round final_score_scaled 2,
                    recommendation = get_recommendation final_score_scaled,
                    explanation = generate_explanation similarity screening_score_in final_score_scaled,
                    candidate_id = cid,
                    hiring_profile_id = hid\<rparr>))"

subsection \<open>Batch matching\<close>

text \<open>
  A candidate is a dictionary; each key the loop reads may be absent (\<open>None\<close>). The key
  \<open>profile\<close> only reaches the unused names of the explanation and is left out.
\<close>

record candidate =
  cand_embedding :: "real list option"
  cand_screening_score :: "real option"
  cand_id :: "string option"
  cand_hiring_profile_id :: "string option"

definition dict_get :: "'a option \<Rightarrow> 'a \<Rightarrow> 'a" where
  "dict_get v d = (case v of None \<Rightarrow> d | Some x \<Rightarrow> x)"

text \<open>
  An element of the result list is either the dictionary of \<open>compute_match\<close> or the
  dictionary \<open>{"candidate_id": ..., "error": str(e), "final_score": -1}\<close>.
\<close>

datatype batch_result = Matched match_result | Failed string error

definition get_final_score :: "batch_result \<Rightarrow> real" where
  "get_final_score x = (case x of Matched r \<Rightarrow> final_score r | Failed c e \<Rightarrow> - 1)"

definition match_candidate :: "matcher \<Rightarrow> real list \<Rightarrow> candidate \<Rightarrow> batch_result" where
  "match_candidate self hiring_embedding c =
     (case compute_match self hiring_embedding
             (dict_get (cand_embedding c) [])
             (dict_get (cand_screening_score c) 5.0)
             (dict_get (cand_id c) '''')
             (dict_get (cand_hiring_profile_id c) '''') of
        Inr result \<Rightarrow> Matched result
      | Inl e \<Rightarrow> Failed (dict_get (cand_id c) '''') e)"

text \<open>
  \<open>list.sort(key=..., reverse=True)\<close> is stable: elements with equal keys keep their
  order. That is the stable ascending sort on the negated key.
\<close>

definition batch_match_candidates :: "matcher \<Rightarrow> real list \<Rightarrow> candidate list \<Rightarrow> batch_result list" where
  "batch_match_candidates self hiring_embedding candidates =
     (let results = map (match_candidate self hiring_embedding) candidates
      in sort_key (\<lambda>x. - get_final_score x) results)"

section \<open>feedback.py\<close>

subsection \<open>The two tables and the collector\<close>

record feedback_row =
  fb_id :: nat
  fb_candidate_id :: string
  fb_hiring_manager_id :: string
  fb_final_score :: real
  fb_feedback :: string
  fb_notes :: "string option"
  fb_created_at :: nat

record weight_history_row =
  wh_similarity_weight :: real
  wh_screening_weight :: real
  wh_confidence :: real
  wh_trigger_action :: string
  wh_feedback_count :: nat
  wh_created_at :: nat

text \<open>
  What a call finds outside the process: the reading of the clock, and for each kind of
  database access whether it succeeds. Every access of the source sits in its own
  \<open>try\<close>, so each kind fails on its own.
\<close>

record environment =
  clock :: nat
  insert_feedback_ok :: bool
  count_feedback_ok :: bool
  select_recent_ok :: bool
  insert_history_ok :: bool
  select_analytics_ok :: bool

text \<open>
  The collector: the two tables of its database, in the order the rows were inserted, and
  the three attributes the adjustment changes.
\<close>

record collector =
  feedback_table :: "feedback_row list"
  weight_history_table :: "weight_history_row list"
  similarity_weight :: real
  screening_weight :: real
  confidence :: real

definition learning_rate :: real where
  "learning_rate = 0.05"

definition min_feedback_for_adjustment :: nat where
  "min_feedback_for_adjustment = 5"

text \<open>The constructor opens a database that may already hold rows.\<close>

definition FeedbackCollector_init :: "feedback_row list \<Rightarrow> weight_history_row list \<Rightarrow> collector" where
  "FeedbackCollector_init fbs whs =
     \<lparr>feedback_table = fbs, weight_history_table = whs,
      similarity_weight = 0.6, screening_weight = 0.4, confidence = 0.5\<rparr>"

subsection \<open>Database accesses\<close>

definition record_weight_adjustment :: "environment \<Rightarrow> collector \<Rightarrow> string \<Rightarrow> nat \<Rightarrow> collector" where
  "record_weight_adjustment env self trigger_action feedback_count =
     (if insert_history_ok env
      then self\<lparr>weight_history_table := weight_history_table self @
             [\<lparr>wh_similarity_weight = similarity_weight self,
               wh_screening_weight = screening_weight self,
               wh_confidence = confidence self,
               wh_trigger_action = trigger_action,
               wh_feedback_count = feedback_count,
               wh_created_at = clock env\<rparr>]\<rparr>
      else self)"

definition get_feedback_count :: "environment \<Rightarrow> collector \<Rightarrow> nat" where
  "get_feedback_count env self =
     (if count_feedback_ok env then length (feedback_table self) else 0)"

text \<open>
  \<open>ORDER BY created_at DESC LIMIT ?\<close>. SQL does not fix the order of rows with equal
  \<open>created_at\<close>; the model keeps them in insertion order.
\<close>

definition get_recent_feedback :: "environment \<Rightarrow> collector \<Rightarrow> nat \<Rightarrow> feedback_row list" where
  "get_recent_feedback env self limit =
     (if select_recent_ok env
      then take limit (sort_key (\<lambda>r. - int (fb_created_at r)) (feedback_table self))
      else [])"

subsection \<open>The adjustment pass\<close>

definition mean_final_score :: "feedback_row list \<Rightarrow> real" where
  "mean_final_score fs =
     (if fs \<noteq> [] then sum_list (map fb_final_score fs) / real (length fs) else 5.0)"

text \<open>
  The \<open>if\<close>/\<open>elif\<close> chain of the pass: it yields \<open>delta_similarity\<close>,
  \<open>delta_screening\<close>, \<open>trigger_action\<close> and the confidence after the chain.
\<close>

definition select_rule ::
  "feedback_row list \<Rightarrow> feedback_row list \<Rightarrow> real \<Rightarrow> real \<times> real \<times> string \<times> real" where
  "select_rule good_fits not_fits conf =
     (let avg_good_fit_score = mean_final_score good_fits;
          avg_not_fit_score = mean_final_score not_fits
      in if not_fits \<noteq> [] \<and> avg_not_fit_score > 6.5
         then (- learning_rate, learning_rate,
               ''Reduce similarity weight (false positives detected)'', conf)
         else if good_fits \<noteq> [] \<and> avg_good_fit_score < 5.0
         then (- learning_rate * 0.25, learning_rate * 0.5,
               ''Increase screening weight (good low-score candidates)'', conf)
         else if good_fits \<noteq> [] \<and> avg_good_fit_score > 7.5
         then (learning_rate * 0.3, learning_rate * 0.2,
               ''Reinforce current weights (strong matches)'', min 0.95 (conf + 0.1))
         else if not_fits \<noteq> [] \<and> avg_not_fit_score < 5.0
         then (0, 0, ''Low scores consistently rejected (good filtering)'', min 0.95 (conf + 0.05))
         else (0, 0, '''', conf))"

text \<open>The block under \<open># Apply weight adjustments\<close>.\<close>

definition apply_weight_adjustments :: "real \<Rightarrow> real \<Rightarrow> real \<Rightarrow> real \<Rightarrow> real \<times> real" where
  "apply_weight_adjustments sw scw delta_similarity delta_screening =
     (if delta_similarity \<noteq> 0 \<or> delta_screening \<noteq> 0
      then (let sw1 = max 0.3 (min 0.8 (sw + delta_similarity));
                scw1 = max 0.2 (min 0.7 (scw + delta_screening));
                total = sw1 + scw1
            in if total > 0 then (sw1 / total, scw1 / total) else (sw1, scw1))
      else (sw, scw))"

definition adjust_weights_based_on_feedback :: "environment \<Rightarrow> collector \<Rightarrow> collector" where
  "adjust_weights_based_on_feedback env self =
     (let feedback_data = get_recent_feedback env self 10
      in if feedback_data = [] then self
         else
           (let good_fits = filter (\<lambda>f. fb_feedback f = ''Good Fit'') feedback_data;
                not_fits = filter (\<lambda>f. fb_feedback f = ''Not a Fit'') feedback_data;
                (delta_similarity, delta_screening, trigger_action, conf) =
                   select_rule good_fits not_fits (confidence self);
                (sw, scw) = apply_weight_adjustments (similarity_weight self)
                              (screening_weight self) delta_similarity delta_screening
            in record_weight_adjustment env
                 (self\<lparr>similarity_weight := sw, screening_weight := scw, confidence := conf\<rparr>)
                 trigger_action (length feedback_data)))"

definition try_adjust_weights :: "environment \<Rightarrow> collector \<Rightarrow> collector" where
  "try_adjust_weights env self =
     (let feedback_count = get_feedback_count env self
      in if feedback_count \<ge> min_feedback_for_adjustment
         then adjust_weights_based_on_feedback env self
         else self)"

subsection \<open>Recording feedback\<close>

text \<open>\<open>cursor.lastrowid\<close> of an \<open>AUTOINCREMENT\<close> key on a table nothing is deleted from.\<close>

definition lastrowid :: "feedback_row list \<Rightarrow> nat" where
  "lastrowid rows = Suc (fold max (map fb_id rows) 0)"

text \<open>
  The result is what the call returns or raises, together with the collector after the
  call.
\<close>

definition record_feedback ::
  "environment \<Rightarrow> collector \<Rightarrow> string \<Rightarrow> string \<Rightarrow> real \<Rightarrow> string \<Rightarrow> string option
     \<Rightarrow> (error + string) \<times> collector" where
  "record_feedback env self cid hiring_manager_id score feedback notes =
     (if feedback \<notin> set [''Good Fit'', ''Not a Fit'']
      then (Inl (ValueError FeedbackMustBeGoodFitOrNotAFit), self)
      else if \<not> insert_feedback_ok env then (Inl DatabaseError, self)
      else
        (let feedback_id = lastrowid (feedback_table self);
             self1 = self\<lparr>feedback_table := feedback_table self @
                       [\<lparr>fb_id = feedback_id, fb_candidate_id = cid,
                         fb_hiring_manager_id = hiring_manager_id, fb_final_score = score,
                         fb_feedback = feedback, fb_notes = notes,
                         fb_created_at = clock env\<rparr>]\<rparr>;
             self2 = try_adjust_weights env self1
         in (Inr (str_nat feedback_id), self2)))"

definition reset_weights :: "environment \<Rightarrow> collector \<Rightarrow> collector" where
  "reset_weights env self =
     (let self1 = self\<lparr>similarity_weight := 0.6, screening_weight := 0.4, confidence := 0.5\<rparr>
      in record_weight_adjustment env self1 ''Manual reset to defaults''
           (get_feedback_count env self1))"

subsection \<open>Reading the weights and the analytics\<close>

record weights_snapshot =
  ws_similarity_weight :: real
  ws_screening_weight :: real
  ws_confidence :: real
  ws_total_feedback :: nat
  ws_updated_at :: nat

text \<open>\<open>updated_at\<close> is the clock at the call (\<open>datetime.now()\<close>, before its rendering as text).\<close>

definition get_weights :: "environment \<Rightarrow> collector \<Rightarrow> weights_snapshot" where
  "get_weights env self =
     \<lparr>ws_similarity_weight = py_round (similarity_weight self) 3,
      ws_screening_weight = py_round (screening_weight self) 3,
      ws_confidence = py_round (confidence self) 3,
      ws_total_feedback = get_feedback_count env self,
      ws_updated_at = clock env\<rparr>"

record score_stat =
  stat_feedback :: string
  stat_avg_score :: real
  stat_count :: nat

record analytics_report =
  total_feedback :: nat
  good_fit_count :: nat
  not_fit_count :: nat
  good_fit_percentage :: real
  score_statistics :: "score_stat list"
  current_weights :: weights_snapshot

text \<open>
  The two shapes of the returned dictionary: the report, or
  \<open>{"total_feedback": 0, "error": str(e)}\<close>.
\<close>

datatype analytics_payload = Report analytics_report | Degraded nat error

text \<open>
  The three \<open>SELECT\<close> statements of the analytics: the row count, the count of each
  label, and the mean score and count of each label (groups in the order of the label).
\<close>

definition select_analytics ::
  "environment \<Rightarrow> collector \<Rightarrow> error + (nat \<times> (string \<times> nat) list \<times> (string \<times> real \<times> nat) list)" where
  "select_analytics env self =
     (if select_analytics_ok env
      then (let rows = feedback_table self;
                labels = sort (remdups (map fb_feedback rows));
                group = (\<lambda>l. filter (\<lambda>r. fb_feedback r = l) rows)
            in Inr (length rows,
                    map (\<lambda>l. (l, length (group l))) labels,
                    map (\<lambda>l. (l, sum_list (map fb_final_score (group l)) / real (length (group l)),
                              length (group l))) labels))
      else Inl StorageError)"

definition analytics_body :: "environment \<Rightarrow> collector \<Rightarrow> error + analytics_report" where
  "analytics_body env self =
     (case select_analytics env self of
        Inl e \<Rightarrow> Inl e
      | Inr (total_rows, feedback_counts, score_stats) \<Rightarrow>
          (let good = dict_get (map_of feedback_counts ''Good Fit'') 0;
               not_fit = dict_get (map_of feedback_counts ''Not a Fit'') 0
           in Inr \<lparr>total_feedback = total_rows,
                    good_fit_count = good,
                    not_fit_count = not_fit,
                    good_fit_percentage =
                      (if total_rows > 0 then py_round (real good / real total_rows * 100) 1 else 0),
                    score_statistics =
                      map (\<lambda>(l, a, c). \<lparr>stat_feedback = l, stat_avg_score = py_round a 2,
                                         stat_count = c\<rparr>) score_stats,
                    current_weights = get_weights env self\<rparr>))"

text \<open>The \<open>try\<close> around the body, with its \<open>except Exception\<close> handler.\<close>

definition get_feedback_analytics :: "environment \<Rightarrow> collector \<Rightarrow> error + analytics_payload" where
  "get_feedback_analytics env self =
     (case analytics_body env self of
        Inr report \<Rightarrow> Inr (Report report)
      | Inl e \<Rightarrow> Inr (Degraded 0 e))"

subsection \<open>The states a collector can be in\<close>

inductive reachable :: "collector \<Rightarrow> bool" where
  reachable_init: "reachable (FeedbackCollector_init fbs whs)"
| reachable_record:
    "reachable s \<Longrightarrow> reachable (snd (record_feedback env s cid hid score feedback notes))"
| reachable_reset: "reachable s \<Longrightarrow> reachable (reset_weights env s)"

subsection \<open>Scenarios\<close>

text \<open>
  An environment in which every database access succeeds and the clock reads \<open>t\<close>, one
  in which every access fails, a row of the feedback table, and a run of
  \<open>record_feedback\<close> calls, one for each (clock, score, label) of a list, that keeps the
  collector and drops the returned ids.
\<close>

definition env_at :: "nat \<Rightarrow> environment" where
  "env_at t = \<lparr>clock = t, insert_feedback_ok = True, count_feedback_ok = True,
              select_recent_ok = True, insert_history_ok = True, select_analytics_ok = True\<rparr>"

definition env_down :: "nat \<Rightarrow> environment" where
  "env_down t = \<lparr>clock = t, insert_feedback_ok = False, count_feedback_ok = False,
                select_recent_ok = False, insert_history_ok = False, select_analytics_ok = False\<rparr>"

definition entry :: "nat \<Rightarrow> real \<Rightarrow> string \<Rightarrow> feedback_row" where
  "entry t score label =
     \<lparr>fb_id = t, fb_candidate_id = ''cand'', fb_hiring_manager_id = ''mgr'',
      fb_final_score = score, fb_feedback = label, fb_notes = None, fb_created_at = t\<rparr>"


section \<open>Facts about rounding and the dot product\<close>

lemma round_half_even_mono: "x \<le> y \<Longrightarrow> round_half_even x \<le> round_half_even y"
proof -
  assume xy: "x \<le> y"
  have lo: "\<And>z. \<lfloor>z\<rfloor> \<le> round_half_even z" by (simp add: round_half_even_def Let_def)
  have hi: "\<And>z. round_half_even z \<le> \<lfloor>z\<rfloor> + 1" by (simp add: round_half_even_def Let_def)
  from xy have fl: "\<lfloor>x\<rfloor> \<le> \<lfloor>y\<rfloor>" by (rule floor_mono)
  show ?thesis
  proof (cases "\<lfloor>x\<rfloor> = \<lfloor>y\<rfloor>")
    case True
    then have "x - of_int \<lfloor>x\<rfloor> \<le> y - of_int \<lfloor>y\<rfloor>" using xy by simp
    with True show ?thesis by (auto simp add: round_half_even_def Let_def)
  next
    case False
    with fl have "\<lfloor>x\<rfloor> + 1 \<le> \<lfloor>y\<rfloor>" by simp
    with hi[of x] lo[of y] show ?thesis by linarith
  qed
qed

lemma py_round_mono: "x \<le> y \<Longrightarrow> py_round x n \<le> py_round y n"
  unfolding py_round_def
  by (intro divide_right_mono) (simp_all add: round_half_even_mono mult_right_mono)

lemma py_round_zero: "py_round 0 n = 0"
  by (simp add: py_round_def round_half_even_def)

lemma py_round_nonneg: "0 \<le> x \<Longrightarrow> 0 \<le> py_round x n"
  using py_round_mono[of 0 x n] by (simp add: py_round_zero)

lemma sqrt_25: "sqrt 25 = 5" by (rule real_sqrt_unique) simp_all

lemma dot_Nil: "dot [] ys = 0" "dot xs [] = 0" by (simp_all add: dot_def)
lemma dot_Cons: "dot (x # xs) (y # ys) = x * y + dot xs ys" by (simp add: dot_def)

lemma dot_self_nonneg: "0 \<le> dot xs xs"
  by (induction xs) (simp_all add: dot_Nil dot_Cons)

lemma cauchy_step:
  fixes x y A B C :: real
  assumes "B\<^sup>2 \<le> A * C" "0 \<le> A" "0 \<le> C"
  shows "(x * y + B)\<^sup>2 \<le> (x * x + A) * (y * y + C)"
proof -
  let ?p = "x\<^sup>2 * C" and ?q = "y\<^sup>2 * A"
  have pq: "0 \<le> ?p + ?q" using assms by simp
  have "(2 * (x * y * B))\<^sup>2 = 4 * (x\<^sup>2 * y\<^sup>2 * B\<^sup>2)" by (simp add: power2_eq_square)
  also have "\<dots> \<le> 4 * (x\<^sup>2 * y\<^sup>2 * (A * C))"
    using assms(1) by (simp add: mult_left_mono)
  also have "\<dots> = 4 * ?p * ?q" by simp
  also have "\<dots> \<le> (?p + ?q)\<^sup>2"
  proof -
    have "0 \<le> (?p - ?q)\<^sup>2" by simp
    then show ?thesis by (simp add: power2_eq_square algebra_simps)
  qed
  finally have "2 * (x * y * B) \<le> ?p + ?q" using pq by (rule power2_le_imp_le)
  then show ?thesis using assms(1) by (simp add: power2_eq_square algebra_simps)
qed

lemma dot_cauchy_schwarz: "(dot xs ys)\<^sup>2 \<le> dot xs xs * dot ys ys"
proof (induction xs ys rule: list_induct2')
  case (4 x xs y ys)
  then show ?case using cauchy_step[of "dot xs ys" "dot xs xs" "dot ys ys" x y]
    by (simp add: dot_self_nonneg dot_Cons)
qed (simp_all add: dot_Nil)

lemma dot_scale: "dot (map (\<lambda>x. x / a) xs) (map (\<lambda>y. y / b) ys) = dot xs ys / (a * b)"
  by (induction xs ys rule: list_induct2') (simp_all add: add_divide_distrib dot_Nil dot_Cons)

lemma dot_normalize_row:
  "dot (normalize_row xs) (normalize_row ys) =
     dot xs ys / (handle_zeros_in_scale (row_norm xs) * handle_zeros_in_scale (row_norm ys))"
  unfolding normalize_row_def by (rule dot_scale)

lemma row_norm_nonneg: "0 \<le> row_norm xs" by (simp add: row_norm_def dot_self_nonneg)

lemma abs_dot_le: "\<bar>dot xs ys\<bar> \<le> row_norm xs * row_norm ys"
proof -
  have "\<bar>dot xs ys\<bar> = sqrt ((dot xs ys)\<^sup>2)" by simp
  also have "\<dots> \<le> sqrt (dot xs xs * dot ys ys)"
    using dot_cauchy_schwarz by (simp only: real_sqrt_le_iff)
  also have "\<dots> = row_norm xs * row_norm ys" by (simp add: row_norm_def real_sqrt_mult)
  finally show ?thesis .
qed

lemma cosine_bounds: "\<bar>dot (normalize_row xs) (normalize_row ys)\<bar> \<le> 1"
proof -
  let ?a = "handle_zeros_in_scale (row_norm xs)" and ?b = "handle_zeros_in_scale (row_norm ys)"
  have a: "0 < ?a" "row_norm xs \<le> ?a"
    using row_norm_nonneg[of xs] by (auto simp: handle_zeros_in_scale_def)
  have b: "0 < ?b" "row_norm ys \<le> ?b"
    using row_norm_nonneg[of ys] by (auto simp: handle_zeros_in_scale_def)
  have "\<bar>dot xs ys\<bar> \<le> row_norm xs * row_norm ys" by (rule abs_dot_le)
  also have "\<dots> \<le> ?a * ?b" using a b row_norm_nonneg by (intro mult_mono) auto
  finally have "\<bar>dot xs ys\<bar> / (?a * ?b) \<le> 1" using a b by (simp add: divide_le_eq)
  then show ?thesis using a b by (simp add: dot_normalize_row abs_mult)
qed

lemma compute_cosine_similarity_range:
  "compute_cosine_similarity xs ys = Inr s \<Longrightarrow> 0 \<le> s \<and> s \<le> 1"
  using cosine_bounds[of xs ys]
  by (auto simp: compute_cosine_similarity_def cosine_similarity_def split: if_splits)

lemma compute_cosine_similarity_ok:
  "xs \<noteq> [] \<Longrightarrow> ys \<noteq> [] \<Longrightarrow> length xs = length ys \<Longrightarrow>
   compute_cosine_similarity xs ys = Inr ((dot (normalize_row xs) (normalize_row ys) + 1) / 2)"
  by (simp add: compute_cosine_similarity_def cosine_similarity_def)

lemma compute_match_Inr:
  "compute_match self h c ss cid hid = Inr r \<Longrightarrow>
   \<exists>sim. compute_cosine_similarity h c = Inr sim \<and> 0 \<le> ss \<and> ss \<le> 10 \<and> h \<noteq> [] \<and> c \<noteq> []
     \<and> final_score r = py_round ((matcher.similarity_weight self * sim
                         + matcher.screening_weight self * (ss / 10)) * 10) 2
     \<and> similarity_score r = py_round sim 3
     \<and> recommendation r = get_recommendation ((matcher.similarity_weight self * sim
                         + matcher.screening_weight self * (ss / 10)) * 10)"
  by (auto simp: compute_match_def Let_def split: if_splits sum.splits)


lemma compute_match_fields:
  "compute_match self h c ss cid hid = Inr r \<Longrightarrow> compute_cosine_similarity h c = Inr sim \<Longrightarrow>
   final_score r = py_round ((matcher.similarity_weight self * sim
                         + matcher.screening_weight self * (ss / 10)) * 10) 2
     \<and> similarity_score r = py_round sim 3
     \<and> recommendation r = get_recommendation ((matcher.similarity_weight self * sim
                         + matcher.screening_weight self * (ss / 10)) * 10)"
  by (auto simp: compute_match_def Let_def split: if_splits)


section \<open>Recommendation tiers\<close>

text \<open>
  Claim C2. The recommendation is the first tier, in descending order of threshold, that
  the score reaches: at least 8 is STRONG MATCH, else at least 7 is GOOD MATCH, else at
  least 6 is MODERATE MATCH, else at least 5 is WEAK MATCH, else POOR MATCH. The
  boundaries are exact: 8.0 is STRONG MATCH and 7.999 is GOOD MATCH. Each tier is
  returned with its advisory phrase.
\<close>

theorem recommendation_tiers:
  "(8 \<le> x \<longrightarrow> get_recommendation x = ''STRONG MATCH - Recommend immediate interview/next round'')
   \<and> (7 \<le> x \<and> x < 8 \<longrightarrow> get_recommendation x = ''GOOD MATCH - Recommend for consideration'')
   \<and> (6 \<le> x \<and> x < 7 \<longrightarrow> get_recommendation x = ''MODERATE MATCH - Consider if other candidates limited'')
   \<and> (5 \<le> x \<and> x < 6 \<longrightarrow> get_recommendation x = ''WEAK MATCH - Not recommended at this time'')
   \<and> (x < 5 \<longrightarrow> get_recommendation x = ''POOR MATCH - Do not recommend'')
   \<and> get_recommendation 8.0 = ''STRONG MATCH - Recommend immediate interview/next round''
   \<and> get_recommendation 7.999 = ''GOOD MATCH - Recommend for consideration''"
  by (simp add: get_recommendation_def)

theorem recommendation_tiers_witness:
  "(8 \<le> (8.5::real) \<and> get_recommendation 8.5 = ''STRONG MATCH - Recommend immediate interview/next round'')
   \<and> ((7::real) \<le> 7.5 \<and> (7.5::real) < 8 \<and> get_recommendation 7.5 = ''GOOD MATCH - Recommend for consideration'')
   \<and> ((6::real) \<le> 6.5 \<and> (6.5::real) < 7 \<and> get_recommendation 6.5 = ''MODERATE MATCH - Consider if other candidates limited'')
   \<and> ((5::real) \<le> 5.5 \<and> (5.5::real) < 6 \<and> get_recommendation 5.5 = ''WEAK MATCH - Not recommended at this time'')
   \<and> ((4::real) < 5 \<and> get_recommendation 4 = ''POOR MATCH - Do not recommend'')"
  using recommendation_tiers[of "8.5"] recommendation_tiers[of "7.5"] recommendation_tiers[of "6.5"]
    recommendation_tiers[of "5.5"] recommendation_tiers[of 4]
  by simp

section \<open>The match score\<close>

text \<open>
  Claim C1. For every screening score in [0,10], every pair of embeddings the similarity
  is defined on and every weight state, \<open>compute_match\<close> returns a result whose
  \<open>final_score\<close> is (similarity_weight * similarity + screening_weight *
  (screening_score / 10)) * 10 rounded to 2 decimals and whose \<open>similarity_score\<close> is
  the similarity rounded to 3 decimals. With the default weights 0.6/0.4, similarity 0.9
  (the embeddings [1,0] and [4,3]) and screening score 8, the final score is 8.6 and the
  recommendation is the STRONG MATCH tier.
\<close>

theorem compute_match_formula:
  "(h \<noteq> [] \<and> c \<noteq> [] \<and> length h = length c \<and> 0 \<le> ss \<and> ss \<le> 10 \<longrightarrow>
      (\<exists>sim r. compute_cosine_similarity h c = Inr sim
         \<and> compute_match self h c ss cid hid = Inr r
         \<and> final_score r = py_round ((matcher.similarity_weight self * sim
                             + matcher.screening_weight self * (ss / 10)) * 10) 2
         \<and> similarity_score r = py_round sim 3))
   \<and> compute_cosine_similarity [1, 0] [4, 3] = Inr 0.9
   \<and> (\<exists>r. compute_match matcher_init [1, 0] [4, 3] 8 cid hid = Inr r
         \<and> final_score r = 8.6
         \<and> recommendation r = ''STRONG MATCH - Recommend immediate interview/next round'')"
proof (intro conjI impI)
  assume a: "h \<noteq> [] \<and> c \<noteq> [] \<and> length h = length c \<and> 0 \<le> ss \<and> ss \<le> 10"
  define sim where "sim = (dot (normalize_row h) (normalize_row c) + 1) / 2"
  from a have cs: "compute_cosine_similarity h c = Inr sim"
    by (simp add: compute_cosine_similarity_ok sim_def)
  from a obtain r where r: "compute_match self h c ss cid hid = Inr r"
    by (simp add: compute_match_def cs Let_def)
  from compute_match_Inr[OF r] cs
  have "final_score r = py_round ((matcher.similarity_weight self * sim
                             + matcher.screening_weight self * (ss / 10)) * 10) 2
         \<and> similarity_score r = py_round sim 3"
    by simp
  with cs r show "\<exists>sim r. compute_cosine_similarity h c = Inr sim
         \<and> compute_match self h c ss cid hid = Inr r
         \<and> final_score r = py_round ((matcher.similarity_weight self * sim
                             + matcher.screening_weight self * (ss / 10)) * 10) 2
         \<and> similarity_score r = py_round sim 3"
    by blast
next
  show sim: "compute_cosine_similarity [1, 0] [4, 3] = Inr 0.9"
    by (simp add: compute_cosine_similarity_def cosine_similarity_def normalize_row_def
        row_norm_def dot_def handle_zeros_in_scale_def sqrt_25)
  show "\<exists>r. compute_match matcher_init [1, 0] [4, 3] 8 cid hid = Inr r
         \<and> final_score r = 8.6
         \<and> recommendation r = ''STRONG MATCH - Recommend immediate interview/next round''"
    by (simp add: compute_match_def sim matcher_init_def Let_def py_round_def
        round_half_even_def get_recommendation_def)
qed

theorem compute_match_formula_witness:
  "\<exists>sim r. compute_cosine_similarity [1, 0] [0, 1] = Inr sim
         \<and> compute_match matcher_init [1, 0] [0, 1] 5 ''c1'' ''h1'' = Inr r
         \<and> final_score r = py_round ((matcher.similarity_weight matcher_init * sim
                             + matcher.screening_weight matcher_init * (5 / 10)) * 10) 2
         \<and> similarity_score r = py_round sim 3"
  using compute_match_formula[of "[1, 0]" "[0, 1]" 5 matcher_init "''c1''" "''h1''"]
  by simp

section \<open>Monotonicity of the final score\<close>

text \<open>
  Claim C9. With the weights fixed (and not negative, as every weight of the data model
  is), the \<open>final_score\<close> of \<open>compute_match\<close> does not decrease when the similarity
  grows and the screening score stays the same, nor when the screening score grows and
  the embeddings stay the same.
\<close>

theorem final_score_monotone:
  assumes "0 \<le> matcher.similarity_weight self" and "0 \<le> matcher.screening_weight self"
  shows "(compute_match self h1 c1 ss cid hid = Inr r1
          \<and> compute_match self h2 c2 ss cid hid = Inr r2
          \<and> compute_cosine_similarity h1 c1 = Inr s1
          \<and> compute_cosine_similarity h2 c2 = Inr s2 \<and> s1 \<le> s2
          \<longrightarrow> final_score r1 \<le> final_score r2)
       \<and> (compute_match self h c ss1 cid hid = Inr q1
          \<and> compute_match self h c ss2 cid hid = Inr q2 \<and> ss1 \<le> ss2
          \<longrightarrow> final_score q1 \<le> final_score q2)"
proof (intro conjI impI)
  assume a: "compute_match self h1 c1 ss cid hid = Inr r1
          \<and> compute_match self h2 c2 ss cid hid = Inr r2
          \<and> compute_cosine_similarity h1 c1 = Inr s1
          \<and> compute_cosine_similarity h2 c2 = Inr s2 \<and> s1 \<le> s2"
  then have f1: "final_score r1 = py_round ((matcher.similarity_weight self * s1
                         + matcher.screening_weight self * (ss / 10)) * 10) 2"
    and f2: "final_score r2 = py_round ((matcher.similarity_weight self * s2
                         + matcher.screening_weight self * (ss / 10)) * 10) 2"
    using compute_match_Inr[of self h1 c1 ss cid hid r1]
      compute_match_Inr[of self h2 c2 ss cid hid r2] by auto
  from a assms(1) have "matcher.similarity_weight self * s1 \<le> matcher.similarity_weight self * s2"
    by (simp add: mult_left_mono)
  then show "final_score r1 \<le> final_score r2"
    unfolding f1 f2 by (intro py_round_mono) simp
next
  assume a: "compute_match self h c ss1 cid hid = Inr q1
          \<and> compute_match self h c ss2 cid hid = Inr q2 \<and> ss1 \<le> ss2"
  then obtain sim where f1: "final_score q1 = py_round ((matcher.similarity_weight self * sim
                         + matcher.screening_weight self * (ss1 / 10)) * 10) 2"
    and f2: "final_score q2 = py_round ((matcher.similarity_weight self * sim
                         + matcher.screening_weight self * (ss2 / 10)) * 10) 2"
    using compute_match_Inr[of self h c ss1 cid hid q1]
      compute_match_Inr[of self h c ss2 cid hid q2] by auto
  from a assms(2) have "matcher.screening_weight self * (ss1 / 10) \<le> matcher.screening_weight self * (ss2 / 10)"
    by (simp add: mult_left_mono)
  then show "final_score q1 \<le> final_score q2"
    unfolding f1 f2 by (intro py_round_mono) simp
qed

theorem final_score_monotone_witness:
  "0 \<le> matcher.similarity_weight matcher_init \<and> 0 \<le> matcher.screening_weight matcher_init
   \<and> (\<exists>r1 r2. compute_match matcher_init [1, 0] [0, 1] 8 [] [] = Inr r1
         \<and> compute_match matcher_init [1, 0] [4, 3] 8 [] [] = Inr r2
         \<and> compute_cosine_similarity [1, 0] [0, 1] = Inr 0.5
         \<and> compute_cosine_similarity [1, 0] [4, 3] = Inr 0.9
         \<and> final_score r1 \<le> final_score r2)
   \<and> (\<exists>q1 q2. compute_match matcher_init [1, 0] [4, 3] 3 [] [] = Inr q1
         \<and> compute_match matcher_init [1, 0] [4, 3] 8 [] [] = Inr q2
         \<and> final_score q1 \<le> final_score q2)"
proof -
  have w: "0 \<le> matcher.similarity_weight matcher_init" "0 \<le> matcher.screening_weight matcher_init"
    by (simp_all add: matcher_init_def)
  have s1: "compute_cosine_similarity [1, 0] [0, 1] = Inr 0.5"
    by (simp add: compute_cosine_similarity_def cosine_similarity_def normalize_row_def
        row_norm_def dot_def handle_zeros_in_scale_def)
  have s2: "compute_cosine_similarity [1, 0] [4, 3] = Inr 0.9"
    by (simp add: compute_cosine_similarity_def cosine_similarity_def normalize_row_def
        row_norm_def dot_def handle_zeros_in_scale_def sqrt_25)
  obtain r1 where r1: "compute_match matcher_init [1, 0] [0, 1] 8 [] [] = Inr r1"
    by (simp add: compute_match_def s1 Let_def)
  obtain r2 where r2: "compute_match matcher_init [1, 0] [4, 3] 8 [] [] = Inr r2"
    by (simp add: compute_match_def s2 Let_def)
  obtain q1 where q1: "compute_match matcher_init [1, 0] [4, 3] 3 [] [] = Inr q1"
    by (simp add: compute_match_def s2 Let_def)
  have le: "(0.5::real) \<le> 0.9" by simp
  have a: "final_score r1 \<le> final_score r2"
    using final_score_monotone[OF w, of "[1, 0]" "[0, 1]" 8 "[]" "[]" r1 "[1, 0]" "[4, 3]" r2 "0.5" "0.9"]
      r1 r2 s1 s2 le by blast
  have le2: "(3::real) \<le> 8" by simp
  have b: "final_score q1 \<le> final_score r2"
    using final_score_monotone[OF w, of _ _ _ "[]" "[]" _ _ _ _ _ _ "[1, 0]" "[4, 3]" 3 q1 8 r2]
      q1 r2 le2 by blast
  show ?thesis using w s1 s2 r1 r2 q1 a b by blast
qed

section \<open>Input errors of the similarity\<close>

text \<open>
  Claim C5. The similarity computation fails with an input error (a \<open>ValueError\<close>)
  whenever an embedding is empty or the two embeddings differ in length: an empty
  embedding is refused by the first check of \<open>compute_match\<close>, whatever the other
  arguments are, and by the input check of the cosine; a length mismatch is refused by the
  input check of the cosine, before a norm or a dot product is taken. For non-empty
  embeddings of equal length the result is (cos + 1) / 2, it lies in [0,1], and cos is the
  dot product over the product of the norms when no norm is zero.
\<close>

theorem similarity_input_errors:
  "(xs = [] \<or> ys = [] \<longrightarrow>
       compute_match self xs ys ss cid hid = Inl (ValueError BothEmbeddingsMustBeProvided)
       \<and> compute_cosine_similarity xs ys = Inl (ValueError NoFeatures))
   \<and> (xs \<noteq> [] \<and> ys \<noteq> [] \<and> length xs \<noteq> length ys \<longrightarrow>
       compute_cosine_similarity xs ys = Inl (ValueError IncompatibleDimension)
       \<and> (\<exists>v. compute_match self xs ys ss cid hid = Inl (ValueError v)))
   \<and> (xs \<noteq> [] \<and> ys \<noteq> [] \<and> length xs = length ys \<longrightarrow>
       (\<exists>s. compute_cosine_similarity xs ys = Inr s \<and> 0 \<le> s \<and> s \<le> 1
          \<and> s = (dot (normalize_row xs) (normalize_row ys) + 1) / 2
          \<and> (row_norm xs \<noteq> 0 \<and> row_norm ys \<noteq> 0 \<longrightarrow>
               s = (dot xs ys / (row_norm xs * row_norm ys) + 1) / 2)))"
proof (intro conjI impI)
  assume "xs = [] \<or> ys = []"
  then show "compute_match self xs ys ss cid hid = Inl (ValueError BothEmbeddingsMustBeProvided)"
    by (auto simp: compute_match_def)
next
  assume "xs = [] \<or> ys = []"
  then show "compute_cosine_similarity xs ys = Inl (ValueError NoFeatures)"
    by (auto simp: compute_cosine_similarity_def cosine_similarity_def)
next
  assume a: "xs \<noteq> [] \<and> ys \<noteq> [] \<and> length xs \<noteq> length ys"
  then show e: "compute_cosine_similarity xs ys = Inl (ValueError IncompatibleDimension)"
    by (simp add: compute_cosine_similarity_def cosine_similarity_def)
  from a show "\<exists>v. compute_match self xs ys ss cid hid = Inl (ValueError v)"
    by (simp add: compute_match_def e)
next
  assume a: "xs \<noteq> [] \<and> ys \<noteq> [] \<and> length xs = length ys"
  define s where "s = (dot (normalize_row xs) (normalize_row ys) + 1) / 2"
  from a have cs: "compute_cosine_similarity xs ys = Inr s"
    by (simp add: compute_cosine_similarity_ok s_def)
  have rng: "0 \<le> s \<and> s \<le> 1" using compute_cosine_similarity_range[OF cs] .
  have "row_norm xs \<noteq> 0 \<and> row_norm ys \<noteq> 0 \<longrightarrow>
               s = (dot xs ys / (row_norm xs * row_norm ys) + 1) / 2"
    by (simp add: s_def dot_normalize_row handle_zeros_in_scale_def)
  with cs rng s_def show "\<exists>s. compute_cosine_similarity xs ys = Inr s \<and> 0 \<le> s \<and> s \<le> 1
          \<and> s = (dot (normalize_row xs) (normalize_row ys) + 1) / 2
          \<and> (row_norm xs \<noteq> 0 \<and> row_norm ys \<noteq> 0 \<longrightarrow>
               s = (dot xs ys / (row_norm xs * row_norm ys) + 1) / 2)"
    by blast
qed

lemma row_norm_1_0: "row_norm [1, 0] = 1" by (simp add: row_norm_def dot_def)
lemma row_norm_4_3: "row_norm [4, 3] = 5" by (simp add: row_norm_def dot_def sqrt_25)

theorem similarity_input_errors_witness:
  "compute_match matcher_init [] [1, 0] 5 [] [] = Inl (ValueError BothEmbeddingsMustBeProvided)
   \<and> compute_cosine_similarity [] [1, 0] = Inl (ValueError NoFeatures)
   \<and> compute_cosine_similarity [1, 0] [1, 2, 3] = Inl (ValueError IncompatibleDimension)
   \<and> (\<exists>v. compute_match matcher_init [1, 0] [1, 2, 3] 5 [] [] = Inl (ValueError v))
   \<and> (\<exists>s. compute_cosine_similarity [1, 0] [4, 3] = Inr s \<and> 0 \<le> s \<and> s \<le> 1
          \<and> s = (dot [1, 0] [4, 3] / (row_norm [1, 0] * row_norm [4, 3]) + 1) / 2)"
  using similarity_input_errors[of "[]" "[1, 0]" matcher_init 5 "[]" "[]"]
    similarity_input_errors[of "[1, 0]" "[1, 2, 3]" matcher_init 5 "[]" "[]"]
    similarity_input_errors[of "[1, 0]" "[4, 3]" matcher_init 5 "[]" "[]"]
  by (simp add: row_norm_1_0 row_norm_4_3) blast

lemma matched_final_score_nonneg:
  assumes "0 \<le> matcher.similarity_weight self" and "0 \<le> matcher.screening_weight self"
    and "compute_match self h c ss cid hid = Inr r"
  shows "0 \<le> final_score r"
proof -
  from compute_match_Inr[OF assms(3)] obtain sim where
    cs: "compute_cosine_similarity h c = Inr sim" and ss: "0 \<le> ss"
    and f: "final_score r = py_round ((matcher.similarity_weight self * sim
                         + matcher.screening_weight self * (ss / 10)) * 10) 2"
    by blast
  from compute_cosine_similarity_range[OF cs] have "0 \<le> sim" by simp
  with assms(1,2) ss show ?thesis unfolding f by (intro py_round_nonneg) simp
qed

lemma match_candidate_key:
  assumes "0 \<le> matcher.similarity_weight self" and "0 \<le> matcher.screening_weight self"
  shows "match_candidate self h c = Matched r \<Longrightarrow> 0 \<le> get_final_score (match_candidate self h c)"
  using matched_final_score_nonneg[OF assms]
  by (auto simp: match_candidate_def get_final_score_def split: sum.splits)

section \<open>Batch matching\<close>

text \<open>
  Claim C10. In \<open>batch_match_candidates\<close> a candidate without the key
  \<open>screening_score\<close> is scored as with the screening score 5.0; a candidate without
  the key \<open>embedding\<close>, or with an empty embedding, does not abort the batch (every
  candidate contributes one result) but contributes the error result with
  \<open>final_score = -1\<close>; and the descending sort places every error result after every
  successful result (weights not negative).
\<close>

theorem batch_defaults_and_sentinel:
  assumes "0 \<le> matcher.similarity_weight self" and "0 \<le> matcher.screening_weight self"
  shows "(cand_screening_score c = None \<longrightarrow>
            match_candidate self h c = match_candidate self h (c\<lparr>cand_screening_score := Some 5.0\<rparr>))
       \<and> (cand_embedding c = None \<or> cand_embedding c = Some [] \<longrightarrow>
            match_candidate self h c
              = Failed (dict_get (cand_id c) '''') (ValueError BothEmbeddingsMustBeProvided)
            \<and> get_final_score (match_candidate self h c) = - 1)
       \<and> length (batch_match_candidates self h cs) = length cs
       \<and> set (batch_match_candidates self h cs) = match_candidate self h ` set cs
       \<and> (\<forall>i j. i < j \<and> j < length cs
              \<and> (\<exists>cid e. batch_match_candidates self h cs ! i = Failed cid e)
            \<longrightarrow> (\<exists>cid e. batch_match_candidates self h cs ! j = Failed cid e))"
proof (intro conjI impI allI)
  assume "cand_screening_score c = None"
  then show "match_candidate self h c = match_candidate self h (c\<lparr>cand_screening_score := Some 5.0\<rparr>)"
    by (simp add: match_candidate_def dict_get_def split: sum.splits)
next
  assume a: "cand_embedding c = None \<or> cand_embedding c = Some []"
  then show m: "match_candidate self h c
              = Failed (dict_get (cand_id c) '''') (ValueError BothEmbeddingsMustBeProvided)"
    by (auto simp: match_candidate_def dict_get_def compute_match_def)
  show "get_final_score (match_candidate self h c) = - 1"
    by (simp add: m get_final_score_def)
next
  show "length (batch_match_candidates self h cs) = length cs"
    by (simp add: batch_match_candidates_def)
next
  show "set (batch_match_candidates self h cs) = match_candidate self h ` set cs"
    by (simp add: batch_match_candidates_def)
next
  fix i j
  let ?out = "batch_match_candidates self h cs"
  assume a: "i < j \<and> j < length cs \<and> (\<exists>cid e. ?out ! i = Failed cid e)"
  have len: "length ?out = length cs" by (simp add: batch_match_candidates_def)
  have "sorted (map (\<lambda>x. - get_final_score x) ?out)"
    by (simp add: batch_match_candidates_def)
  with a len have le: "- get_final_score (?out ! i) \<le> - get_final_score (?out ! j)"
    by (auto simp: sorted_iff_nth_mono dest!: spec[of _ i] spec[of _ j])
  from a have "get_final_score (?out ! i) = - 1" by (auto simp: get_final_score_def)
  with le have k: "get_final_score (?out ! j) \<le> - 1" by simp
  from a len have "?out ! j \<in> set ?out" by simp
  then obtain c where oj: "?out ! j = match_candidate self h c"
    by (auto simp: batch_match_candidates_def)
  show "\<exists>cid e. ?out ! j = Failed cid e"
  proof (cases "?out ! j")
    case (Matched r)
    with oj match_candidate_key[OF assms, of h c r] k show ?thesis by simp
  next
    case (Failed cid e)
    then show ?thesis by blast
  qed
qed

theorem batch_defaults_and_sentinel_witness:
  "0 \<le> matcher.similarity_weight matcher_init \<and> 0 \<le> matcher.screening_weight matcher_init
   \<and> match_candidate matcher_init [1, 0]
        \<lparr>cand_embedding = Some [4, 3], cand_screening_score = None,
         cand_id = Some ''b'', cand_hiring_profile_id = None\<rparr>
      = match_candidate matcher_init [1, 0]
        \<lparr>cand_embedding = Some [4, 3], cand_screening_score = Some 5.0,
         cand_id = Some ''b'', cand_hiring_profile_id = None\<rparr>
   \<and> match_candidate matcher_init [1, 0]
        \<lparr>cand_embedding = None, cand_screening_score = Some 9,
         cand_id = Some ''a'', cand_hiring_profile_id = None\<rparr>
      = Failed ''a'' (ValueError BothEmbeddingsMustBeProvided)
   \<and> (\<exists>r. batch_match_candidates matcher_init [1, 0]
          [\<lparr>cand_embedding = None, cand_screening_score = Some 9,
            cand_id = Some ''a'', cand_hiring_profile_id = None\<rparr>,
           \<lparr>cand_embedding = Some [4, 3], cand_screening_score = None,
            cand_id = Some ''b'', cand_hiring_profile_id = None\<rparr>,
           \<lparr>cand_embedding = Some [], cand_screening_score = Some 9,
            cand_id = Some ''c'', cand_hiring_profile_id = None\<rparr>]
        = [Matched r,
           Failed ''a'' (ValueError BothEmbeddingsMustBeProvided),
           Failed ''c'' (ValueError BothEmbeddingsMustBeProvided)]
        \<and> final_score r = 7.4)
   \<and> (\<exists>cid e. batch_match_candidates matcher_init [1, 0]
          [\<lparr>cand_embedding = None, cand_screening_score = Some 9,
            cand_id = Some ''a'', cand_hiring_profile_id = None\<rparr>,
           \<lparr>cand_embedding = Some [4, 3], cand_screening_score = None,
            cand_id = Some ''b'', cand_hiring_profile_id = None\<rparr>,
           \<lparr>cand_embedding = Some [], cand_screening_score = Some 9,
            cand_id = Some ''c'', cand_hiring_profile_id = None\<rparr>] ! 2 = Failed cid e)"
proof -
  let ?bad = "\<lparr>cand_embedding = None, cand_screening_score = Some 9,
         cand_id = Some ''a'', cand_hiring_profile_id = None\<rparr>"
  let ?ok = "\<lparr>cand_embedding = Some [4, 3], cand_screening_score = None,
         cand_id = Some ''b'', cand_hiring_profile_id = None\<rparr>"
  let ?bad2 = "\<lparr>cand_embedding = Some [], cand_screening_score = Some 9,
            cand_id = Some ''c'', cand_hiring_profile_id = None\<rparr>"
  let ?cs = "[?bad, ?ok, ?bad2]"
  let ?out = "batch_match_candidates matcher_init [1, 0] ?cs"
  have w: "0 \<le> matcher.similarity_weight matcher_init" "0 \<le> matcher.screening_weight matcher_init"
    by (simp_all add: matcher_init_def)
  note t = batch_defaults_and_sentinel[OF w]
  have ok: "match_candidate matcher_init [1, 0] ?ok
      = match_candidate matcher_init [1, 0] (?ok\<lparr>cand_screening_score := Some 5.0\<rparr>)"
    using t[of ?ok "[1, 0]" "[]"] by simp
  have bad: "match_candidate matcher_init [1, 0] ?bad
      = Failed ''a'' (ValueError BothEmbeddingsMustBeProvided)"
    using t[of ?bad "[1, 0]" "[]"] by (simp add: dict_get_def)
  have bad2: "match_candidate matcher_init [1, 0] ?bad2
      = Failed ''c'' (ValueError BothEmbeddingsMustBeProvided)"
    using t[of ?bad2 "[1, 0]" "[]"] by (simp add: dict_get_def)
  have s: "compute_cosine_similarity [1, 0] [4, 3] = Inr 0.9"
    by (simp add: compute_cosine_similarity_def cosine_similarity_def normalize_row_def
        row_norm_def dot_def handle_zeros_in_scale_def sqrt_25)
  obtain r where r: "compute_match matcher_init [1, 0] [4, 3] 5 ''b'' [] = Inr r"
    by (simp add: compute_match_def s Let_def)
  from compute_match_fields[OF r s] have f: "final_score r = 7.4"
    by (simp add: matcher_init_def py_round_def round_half_even_def)
  from r have okr: "match_candidate matcher_init [1, 0] ?ok = Matched r"
    by (simp add: match_candidate_def dict_get_def)
  have out: "?out = [Matched r, Failed ''a'' (ValueError BothEmbeddingsMustBeProvided),
           Failed ''c'' (ValueError BothEmbeddingsMustBeProvided)]"
    by (simp add: batch_match_candidates_def bad bad2 okr get_final_score_def f)
  have one: "\<exists>cid e. ?out ! 1 = Failed cid e" by (simp add: out)
  note t[of _ "[1, 0]" ?cs, THEN conjunct2, THEN conjunct2, THEN conjunct2, THEN conjunct2,
      THEN spec, THEN spec, of 1 2]
  then have "(1::nat) < 2 \<and> 2 < length ?cs \<and> (\<exists>cid e. ?out ! 1 = Failed cid e)
            \<longrightarrow> (\<exists>cid e. ?out ! 2 = Failed cid e)" .
  with one have two: "\<exists>cid e. ?out ! 2 = Failed cid e" by simp
  from w ok bad out f two show ?thesis by simp
qed

section \<open>Facts about the adjustment pass\<close>

lemma apply_weight_adjustments_normalised:
  assumes "ds \<noteq> 0 \<or> dc \<noteq> 0" and "apply_weight_adjustments sw scw ds dc = (a, b)"
  shows "a + b = 1 \<and> 0.3 \<le> a \<and> a \<le> 0.8 \<and> 0.2 \<le> b \<and> b \<le> 0.7"
proof -
  define p where "p = max 0.3 (min 0.8 (sw + ds))"
  define q where "q = max 0.2 (min 0.7 (scw + dc))"
  have p: "0.3 \<le> p" "p \<le> 0.8" by (simp_all add: p_def max_def min_def)
  have q: "0.2 \<le> q" "q \<le> 0.7" by (simp_all add: q_def max_def min_def)
  from p q have t: "0 < p + q" by simp
  from assms have ab: "a = p / (p + q)" "b = q / (p + q)"
    using t by (simp_all add: apply_weight_adjustments_def Let_def p_def q_def)
  have "a + b = (p + q) / (p + q)" unfolding ab by (simp only: add_divide_distrib)
  then have s: "a + b = 1" using t by simp
  have "0.3 \<le> a" "a \<le> 0.8" "0.2 \<le> b" "b \<le> 0.7"
    unfolding ab using p q t by (simp_all add: pos_le_divide_eq pos_divide_le_eq)
  with s show ?thesis by simp
qed

lemma record_weight_adjustment_weights:
  "similarity_weight (record_weight_adjustment env s tr n) = similarity_weight s"
  "screening_weight (record_weight_adjustment env s tr n) = screening_weight s"
  "confidence (record_weight_adjustment env s tr n) = confidence s"
  "feedback_table (record_weight_adjustment env s tr n) = feedback_table s"
  by (simp_all add: record_weight_adjustment_def)

lemma adjust_weights_preserves:
  assumes "similarity_weight s + screening_weight s = 1"
    and "0.3 \<le> similarity_weight s" "similarity_weight s \<le> 0.8"
    and "0.2 \<le> screening_weight s" "screening_weight s \<le> 0.7"
  shows "similarity_weight (adjust_weights_based_on_feedback env s)
           + screening_weight (adjust_weights_based_on_feedback env s) = 1
         \<and> 0.3 \<le> similarity_weight (adjust_weights_based_on_feedback env s)
         \<and> similarity_weight (adjust_weights_based_on_feedback env s) \<le> 0.8
         \<and> 0.2 \<le> screening_weight (adjust_weights_based_on_feedback env s)
         \<and> screening_weight (adjust_weights_based_on_feedback env s) \<le> 0.7"
proof (cases "get_recent_feedback env s 10 = []")
  case True
  with assms show ?thesis by (simp add: adjust_weights_based_on_feedback_def)
next
  case False
  let ?fd = "get_recent_feedback env s 10"
  obtain ds dc tr c' where sr: "select_rule (filter (\<lambda>f. fb_feedback f = ''Good Fit'') ?fd)
      (filter (\<lambda>f. fb_feedback f = ''Not a Fit'') ?fd) (confidence s) = (ds, dc, tr, c')"
    by (metis prod_cases4)
  obtain a b where ap: "apply_weight_adjustments (similarity_weight s) (screening_weight s) ds dc = (a, b)"
    by (metis surj_pair)
  have w: "similarity_weight (adjust_weights_based_on_feedback env s) = a"
       "screening_weight (adjust_weights_based_on_feedback env s) = b"
    using False sr ap
    by (simp_all add: adjust_weights_based_on_feedback_def Let_def record_weight_adjustment_weights)
  show ?thesis
  proof (cases "ds \<noteq> 0 \<or> dc \<noteq> 0")
    case True
    from apply_weight_adjustments_normalised[OF True ap] show ?thesis unfolding w .
  next
    case False
    with ap have "a = similarity_weight s" "b = screening_weight s"
      by (simp_all add: apply_weight_adjustments_def)
    with assms show ?thesis unfolding w by simp
  qed
qed

lemma reset_weights_fields:
  "similarity_weight (reset_weights env s) = 0.6"
  "screening_weight (reset_weights env s) = 0.4"
  "confidence (reset_weights env s) = 0.5"
  by (simp_all add: reset_weights_def Let_def record_weight_adjustment_weights)

lemma record_feedback_preserves:
  assumes "similarity_weight s + screening_weight s = 1"
    and "0.3 \<le> similarity_weight s" "similarity_weight s \<le> 0.8"
    and "0.2 \<le> screening_weight s" "screening_weight s \<le> 0.7"
  shows "similarity_weight (snd (record_feedback env s c h sc fb n))
           + screening_weight (snd (record_feedback env s c h sc fb n)) = 1
         \<and> 0.3 \<le> similarity_weight (snd (record_feedback env s c h sc fb n))
         \<and> similarity_weight (snd (record_feedback env s c h sc fb n)) \<le> 0.8
         \<and> 0.2 \<le> screening_weight (snd (record_feedback env s c h sc fb n))
         \<and> screening_weight (snd (record_feedback env s c h sc fb n)) \<le> 0.7"
proof -
  let ?row = "\<lparr>fb_id = lastrowid (feedback_table s), fb_candidate_id = c,
                         fb_hiring_manager_id = h, fb_final_score = sc,
                         fb_feedback = fb, fb_notes = n,
                         fb_created_at = clock env\<rparr>"
  let ?s1 = "s\<lparr>feedback_table := feedback_table s @ [?row]\<rparr>"
  have s1: "similarity_weight ?s1 + screening_weight ?s1 = 1"
    "0.3 \<le> similarity_weight ?s1" "similarity_weight ?s1 \<le> 0.8"
    "0.2 \<le> screening_weight ?s1" "screening_weight ?s1 \<le> 0.7"
    using assms by simp_all
  note adj = adjust_weights_preserves[OF s1, of env]
  have "snd (record_feedback env s c h sc fb n) = s
        \<or> snd (record_feedback env s c h sc fb n) = ?s1
        \<or> snd (record_feedback env s c h sc fb n) = adjust_weights_based_on_feedback env ?s1"
    by (simp add: record_feedback_def try_adjust_weights_def Let_def)
  then show ?thesis using assms s1 adj by (elim disjE) simp_all
qed

lemma reachable_weights:
  "reachable s \<Longrightarrow> similarity_weight s + screening_weight s = 1
         \<and> 0.3 \<le> similarity_weight s \<and> similarity_weight s \<le> 0.8
         \<and> 0.2 \<le> screening_weight s \<and> screening_weight s \<le> 0.7"
proof (induction rule: reachable.induct)
  case (reachable_init fbs whs)
  show ?case by (simp add: FeedbackCollector_init_def)
next
  case (reachable_record s env cid hid score feedback nts)
  then show ?case using record_feedback_preserves[of s env cid hid score feedback nts] by blast
next
  case (reachable_reset s env)
  show ?case by (simp add: reset_weights_fields)
qed




lemma adjust_feedback_table:
  "feedback_table (adjust_weights_based_on_feedback env s) = feedback_table s"
  by (simp add: adjust_weights_based_on_feedback_def Let_def record_weight_adjustment_weights
      split: prod.splits)

lemma try_adjust_feedback_table:
  "feedback_table (try_adjust_weights env s) = feedback_table s"
  by (simp add: try_adjust_weights_def Let_def adjust_feedback_table)



section \<open>The weights after an adjustment or a reset\<close>

text \<open>
  Claim C3. In every state a collector can reach, after every adjustment pass from such a
  state and after every reset, \<open>similarity_weight + screening_weight = 1\<close>,
  \<open>similarity_weight\<close> lies in [0.3,0.8] and \<open>screening_weight\<close> lies in [0.2,0.7].
  Whatever the weights were, a non-zero delta is first clamped to those ranges and the two
  clamped weights are then divided by their sum, so that they sum to exactly 1 and stay in
  the ranges.
\<close>

theorem weights_normalised_and_bounded:
  "(reachable s \<longrightarrow>
      similarity_weight s + screening_weight s = 1
      \<and> 0.3 \<le> similarity_weight s \<and> similarity_weight s \<le> 0.8
      \<and> 0.2 \<le> screening_weight s \<and> screening_weight s \<le> 0.7
      \<and> similarity_weight (adjust_weights_based_on_feedback env s)
           + screening_weight (adjust_weights_based_on_feedback env s) = 1
      \<and> 0.3 \<le> similarity_weight (adjust_weights_based_on_feedback env s)
      \<and> similarity_weight (adjust_weights_based_on_feedback env s) \<le> 0.8
      \<and> 0.2 \<le> screening_weight (adjust_weights_based_on_feedback env s)
      \<and> screening_weight (adjust_weights_based_on_feedback env s) \<le> 0.7)
   \<and> similarity_weight (reset_weights env s) + screening_weight (reset_weights env s) = 1
   \<and> similarity_weight (reset_weights env s) = 0.6
   \<and> screening_weight (reset_weights env s) = 0.4
   \<and> (delta_similarity \<noteq> 0 \<or> delta_screening \<noteq> 0 \<longrightarrow>
        fst (apply_weight_adjustments sw scw delta_similarity delta_screening)
          + snd (apply_weight_adjustments sw scw delta_similarity delta_screening) = 1
        \<and> fst (apply_weight_adjustments sw scw delta_similarity delta_screening)
            = max 0.3 (min 0.8 (sw + delta_similarity))
              / (max 0.3 (min 0.8 (sw + delta_similarity)) + max 0.2 (min 0.7 (scw + delta_screening)))
        \<and> snd (apply_weight_adjustments sw scw delta_similarity delta_screening)
            = max 0.2 (min 0.7 (scw + delta_screening))
              / (max 0.3 (min 0.8 (sw + delta_similarity)) + max 0.2 (min 0.7 (scw + delta_screening)))
        \<and> 0.3 \<le> fst (apply_weight_adjustments sw scw delta_similarity delta_screening)
        \<and> fst (apply_weight_adjustments sw scw delta_similarity delta_screening) \<le> 0.8
        \<and> 0.2 \<le> snd (apply_weight_adjustments sw scw delta_similarity delta_screening)
        \<and> snd (apply_weight_adjustments sw scw delta_similarity delta_screening) \<le> 0.7)"
proof (intro conjI impI)
  assume r: "reachable s"
  note inv = reachable_weights[OF r]
  from inv show "similarity_weight s + screening_weight s = 1"
    "0.3 \<le> similarity_weight s" "similarity_weight s \<le> 0.8"
    "0.2 \<le> screening_weight s" "screening_weight s \<le> 0.7"
    by simp_all
  from inv have "similarity_weight s + screening_weight s = 1"
    "0.3 \<le> similarity_weight s" "similarity_weight s \<le> 0.8"
    "0.2 \<le> screening_weight s" "screening_weight s \<le> 0.7" by simp_all
  note adj = adjust_weights_preserves[OF this, of env]
  from adj show "similarity_weight (adjust_weights_based_on_feedback env s)
           + screening_weight (adjust_weights_based_on_feedback env s) = 1"
    "0.3 \<le> similarity_weight (adjust_weights_based_on_feedback env s)"
    "similarity_weight (adjust_weights_based_on_feedback env s) \<le> 0.8"
    "0.2 \<le> screening_weight (adjust_weights_based_on_feedback env s)"
    "screening_weight (adjust_weights_based_on_feedback env s) \<le> 0.7"
    by simp_all
next
  show "similarity_weight (reset_weights env s) + screening_weight (reset_weights env s) = 1"
    "similarity_weight (reset_weights env s) = 0.6"
    "screening_weight (reset_weights env s) = 0.4"
    by (simp_all add: reset_weights_fields)
next
  assume d: "delta_similarity \<noteq> 0 \<or> delta_screening \<noteq> 0"
  let ?r = "apply_weight_adjustments sw scw delta_similarity delta_screening"
  let ?p = "max 0.3 (min 0.8 (sw + delta_similarity))"
  let ?q = "max 0.2 (min 0.7 (scw + delta_screening))"
  have pr: "?r = (fst ?r, snd ?r)" by simp
  from apply_weight_adjustments_normalised[OF d pr]
  show "fst ?r + snd ?r = 1" "0.3 \<le> fst ?r" "fst ?r \<le> 0.8" "0.2 \<le> snd ?r" "snd ?r \<le> 0.7"
    by simp_all
  have "0.3 \<le> ?p" "0.2 \<le> ?q" by (simp_all add: max_def min_def)
  then have t: "0 < ?p + ?q" by linarith
  from d t show "fst ?r = ?p / (?p + ?q)" "snd ?r = ?q / (?p + ?q)"
    by (simp_all add: apply_weight_adjustments_def Let_def)
qed

theorem weights_normalised_and_bounded_witness:
  "reachable (FeedbackCollector_init [] [])
   \<and> similarity_weight (FeedbackCollector_init [] []) + screening_weight (FeedbackCollector_init [] []) = 1
   \<and> similarity_weight (adjust_weights_based_on_feedback (env_at 7) (FeedbackCollector_init [] []))
       + screening_weight (adjust_weights_based_on_feedback (env_at 7) (FeedbackCollector_init [] [])) = 1
   \<and> (- 0.05 :: real) \<noteq> 0
   \<and> fst (apply_weight_adjustments 0.3 0.7 (- 0.05) 0.05)
       + snd (apply_weight_adjustments 0.3 0.7 (- 0.05) 0.05) = 1
   \<and> 0.3 \<le> fst (apply_weight_adjustments 0.3 0.7 (- 0.05) 0.05)
   \<and> snd (apply_weight_adjustments 0.3 0.7 (- 0.05) 0.05) \<le> 0.7"
proof -
  have r: "reachable (FeedbackCollector_init [] [])" by (rule reachable_init)
  have d: "(- 0.05 :: real) \<noteq> 0 \<or> (0.05 :: real) \<noteq> 0" by simp
  from r d weights_normalised_and_bounded[of "FeedbackCollector_init [] []" "env_at 7" "- 0.05" "0.05" "0.3" "0.7"]
  show ?thesis by simp
qed

section \<open>The rules of the adjustment pass\<close>






section \<open>Validation of the feedback literal\<close>

text \<open>
  Claim C6 as stated fails when the insert into the feedback table fails: the call with
  an accepted literal then raises \<open>DatabaseError\<close> and appends nothing.
\<close>

theorem record_feedback_validation_counterexample:
  "record_feedback (env_down 1) (FeedbackCollector_init [] []) ''cand'' ''mgr'' 7.0 ''Good Fit'' None
     = (Inl DatabaseError, FeedbackCollector_init [] [])"
  by (simp add: record_feedback_def env_down_def)


text \<open>
  Claim C6, amended. \<open>record_feedback\<close> raises the validation error whenever the
  feedback argument is neither "Good Fit" nor "Not a Fit", and the collector is then
  unchanged (nothing is written, no adjustment pass runs). For either accepted literal,
  when the insert succeeds the entry is appended and its id is returned; when the insert
  fails, \<open>DatabaseError\<close> is raised and the collector is unchanged.
\<close>

theorem record_feedback_validation:
  "(feedback \<noteq> ''Good Fit'' \<and> feedback \<noteq> ''Not a Fit'' \<longrightarrow>
      record_feedback env s cid hid score feedback nts
        = (Inl (ValueError FeedbackMustBeGoodFitOrNotAFit), s))
   \<and> ((feedback = ''Good Fit'' \<or> feedback = ''Not a Fit'') \<and> insert_feedback_ok env \<longrightarrow>
      fst (record_feedback env s cid hid score feedback nts)
        = Inr (str_nat (lastrowid (feedback_table s)))
      \<and> feedback_table (snd (record_feedback env s cid hid score feedback nts))
        = feedback_table s @
            [\<lparr>fb_id = lastrowid (feedback_table s), fb_candidate_id = cid,
              fb_hiring_manager_id = hid, fb_final_score = score,
              fb_feedback = feedback, fb_notes = nts, fb_created_at = clock env\<rparr>])
   \<and> ((feedback = ''Good Fit'' \<or> feedback = ''Not a Fit'') \<and> \<not> insert_feedback_ok env \<longrightarrow>
      record_feedback env s cid hid score feedback nts = (Inl DatabaseError, s))"
  by (auto simp add: record_feedback_def Let_def try_adjust_feedback_table)

theorem record_feedback_validation_witness:
  "(''Maybe'' \<noteq> ''Good Fit'' \<and> ''Maybe'' \<noteq> ''Not a Fit''
      \<and> record_feedback (env_at 1) (FeedbackCollector_init [] []) ''cand'' ''mgr'' 7.0 ''Maybe'' None
        = (Inl (ValueError FeedbackMustBeGoodFitOrNotAFit), FeedbackCollector_init [] []))
   \<and> (insert_feedback_ok (env_at 1)
      \<and> fst (record_feedback (env_at 1) (FeedbackCollector_init [] []) ''cand'' ''mgr'' 7.0 ''Good Fit'' None)
        = Inr ''1''
      \<and> feedback_table (snd (record_feedback (env_at 1) (FeedbackCollector_init [] [])
            ''cand'' ''mgr'' 7.0 ''Good Fit'' None))
        = [entry 1 7.0 ''Good Fit''])
   \<and> (\<not> insert_feedback_ok (env_down 1)
      \<and> record_feedback (env_down 1) (FeedbackCollector_init [] []) ''cand'' ''mgr'' 7.0 ''Not a Fit'' None
        = (Inl DatabaseError, FeedbackCollector_init [] []))"
  using record_feedback_validation[of "''Maybe''" "env_at 1" "FeedbackCollector_init [] []" "''cand''" "''mgr''" "7.0" None]
    record_feedback_validation[of "''Good Fit''" "env_at 1" "FeedbackCollector_init [] []" "''cand''" "''mgr''" "7.0" None]
    record_feedback_validation[of "''Not a Fit''" "env_down 1" "FeedbackCollector_init [] []" "''cand''" "''mgr''" "7.0" None]
  by (simp add: env_at_def env_down_def FeedbackCollector_init_def lastrowid_def entry_def
      str_nat.simps digit_char_def)


section \<open>Reading the weights twice\<close>

text \<open>
  Claim C7 as stated fails: two calls of \<open>get_weights\<close> on the same collector at
  different readings of the clock differ in \<open>updated_at\<close>.
\<close>

theorem get_weights_repeatable_counterexample:
  "get_weights (env_at 1) (FeedbackCollector_init [] [])
     \<noteq> get_weights (env_at 2) (FeedbackCollector_init [] [])"
  by (simp add: get_weights_def env_at_def)


text \<open>
  Claim C7, amended. Two calls of \<open>get_weights\<close> on the same collector return the same
  \<open>similarity_weight\<close>, \<open>screening_weight\<close> and \<open>confidence\<close>, and the same
  \<open>total_feedback\<close> when the count query succeeds on both calls or fails on both;
  \<open>updated_at\<close> is the clock at each call, so the two snapshots are equal in every
  field when also the clock reads the same.
\<close>

theorem get_weights_repeatable:
  "ws_similarity_weight (get_weights e1 s) = ws_similarity_weight (get_weights e2 s)
   \<and> ws_screening_weight (get_weights e1 s) = ws_screening_weight (get_weights e2 s)
   \<and> ws_confidence (get_weights e1 s) = ws_confidence (get_weights e2 s)
   \<and> (count_feedback_ok e1 = count_feedback_ok e2 \<longrightarrow>
        ws_total_feedback (get_weights e1 s) = ws_total_feedback (get_weights e2 s))
   \<and> ws_updated_at (get_weights e1 s) = clock e1
   \<and> ws_updated_at (get_weights e2 s) = clock e2
   \<and> (count_feedback_ok e1 = count_feedback_ok e2 \<and> clock e1 = clock e2 \<longrightarrow>
        get_weights e1 s = get_weights e2 s)"
  by (simp add: get_weights_def get_feedback_count_def)

theorem get_weights_repeatable_witness:
  "count_feedback_ok (env_at 1) = count_feedback_ok (env_at 2)
   \<and> ws_total_feedback (get_weights (env_at 1) (FeedbackCollector_init [entry 1 9.0 ''Not a Fit''] []))
      = ws_total_feedback (get_weights (env_at 2) (FeedbackCollector_init [entry 1 9.0 ''Not a Fit''] []))
   \<and> clock (env_at 1) = clock (env_at 1)
   \<and> get_weights (env_at 1) (FeedbackCollector_init [entry 1 9.0 ''Not a Fit''] [])
      = get_weights (env_at 1) (FeedbackCollector_init [entry 1 9.0 ''Not a Fit''] [])"
  using get_weights_repeatable[of "env_at 1" "FeedbackCollector_init [entry 1 9.0 ''Not a Fit''] []" "env_at 2"]
    get_weights_repeatable[of "env_at 1" "FeedbackCollector_init [entry 1 9.0 ''Not a Fit''] []" "env_at 1"]
  by (simp add: env_at_def)


section \<open>Analytics under storage errors\<close>

text \<open>
  Claim C8. \<open>get_feedback_analytics\<close> never raises: for every collector and every
  environment, also one in which every database access fails, it returns a payload. When
  its queries fail the payload is the degraded one, with \<open>total_feedback = 0\<close> and the
  error; when they succeed it is the report, whose \<open>total_feedback\<close> is the number of
  rows.
\<close>

theorem analytics_never_raises:
  "(\<exists>p. get_feedback_analytics env s = Inr p)
   \<and> (\<not> select_analytics_ok env \<longrightarrow>
        get_feedback_analytics env s = Inr (Degraded 0 StorageError))
   \<and> (select_analytics_ok env \<longrightarrow>
        (\<exists>r. get_feedback_analytics env s = Inr (Report r)
           \<and> total_feedback r = length (feedback_table s)))"
  by (auto simp add: get_feedback_analytics_def analytics_body_def select_analytics_def Let_def
      split: sum.splits)

theorem analytics_never_raises_witness:
  "\<not> select_analytics_ok (env_down 3)
   \<and> get_feedback_analytics (env_down 3) (FeedbackCollector_init [entry 1 9.0 ''Not a Fit''] [])
      = Inr (Degraded 0 StorageError)
   \<and> select_analytics_ok (env_at 3)
   \<and> (\<exists>r. get_feedback_analytics (env_at 3) (FeedbackCollector_init [entry 1 9.0 ''Not a Fit''] [])
            = Inr (Report r) \<and> total_feedback r = 1)"
  using analytics_never_raises[of "env_down 3" "FeedbackCollector_init [entry 1 9.0 ''Not a Fit''] []"]
    analytics_never_raises[of "env_at 3" "FeedbackCollector_init [entry 1 9.0 ''Not a Fit''] []"]
  by (simp add: env_at_def env_down_def FeedbackCollector_init_def)

end
